theory Spec2Isabelle
  imports Complex_Main "HOL-Library.DAList"
begin

section \<open>Data model\<close>

text \<open>
  The script \<^verbatim>\<open>parse_bodymap.py\<close> is a straight-line pipeline: load a JSON document,
  flatten it into a list of point records, build a table from them, and then print a
  summary, render three multi-panel figures and print statistics.

  A Python float is a finite binary fraction, an infinity or NaN (Python's JSON reader
  accepts all of them). Finite floats are embedded in the rationals; comparisons, the only
  float operation the binning depends on, are exact on them.
\<close>

datatype float64 = Fin rat | PosInf | NegInf | NaN

text \<open>A point object of the input document, with the seven fields the script reads.\<close>

record point =
  participantId :: string
  figure :: string
  contactType :: string
  direction :: string
  xNorm :: float64
  yNorm :: float64
  confidence :: float64

text \<open>
  A Python \<^verbatim>\<open>dict\<close> keeps its keys distinct and in insertion order: an association list
  with distinct keys. An element of \<^verbatim>\<open>data['data']\<close> is \<^verbatim>\<open>None\<close> or such a dictionary
  from timestamp strings to point objects.
\<close>

type_synonym 'p participant = "(string, 'p) alist option"

definition items :: "(string, 'p) alist \<Rightarrow> (string \<times> 'p) list" where
  "items d = DAList.impl_of d"

datatype error =
    KeyError string
  | IndexError
  | ValueError
  | FileNotFoundError string
  | JSONDecodeError

section \<open>Flattener\<close>

text \<open>
  \<^verbatim>\<open>for timestamp, point in participant_data.items(): points.append(point)\<close>
\<close>

fun append_points :: "(string \<times> 'p) list \<Rightarrow> 'p list \<Rightarrow> 'p list" where
  "append_points [] points = points"
| "append_points ((timestamp, point) # rest) points = append_points rest (points @ [point])"

text \<open>
  \<^verbatim>\<open>for idx, participant_data in enumerate(data['data']):\<close>
  \<^verbatim>\<open>    if participant_data is None: continue\<close>
  with the list \<^verbatim>\<open>points\<close> as the state of the loop.
\<close>

fun flatten :: "'p participant list \<Rightarrow> 'p list \<Rightarrow> 'p list" where
  "flatten [] points = points"
| "flatten (None # rest) points = flatten rest points"
| "flatten (Some participant_data # rest) points =
     flatten rest (append_points (items participant_data) points)"

definition flattener :: "'p participant list \<Rightarrow> 'p list" where
  "flattener data = flatten data []"

text \<open>The number of timestamp entries of a participant's map (\<^verbatim>\<open>len\<close> of the dictionary).\<close>

definition timestamp_entries :: "'p participant \<Rightarrow> nat" where
  "timestamp_entries e = (case e of None \<Rightarrow> 0 | Some d \<Rightarrow> card (dom (DAList.lookup d)))"

text \<open>The point objects of one entry, in the iteration order of its dictionary.\<close>

definition entry_points :: "'p participant \<Rightarrow> 'p list" where
  "entry_points e = (case e of None \<Rightarrow> [] | Some d \<Rightarrow> map snd (items d))"

section \<open>Tabulator\<close>

text \<open>
  Modelled from the spec: \<^verbatim>\<open>pd.DataFrame(points)\<close> and the column operations of the table
  library, whose code is not part of the repository. The table keeps the records in order.
  Built from an empty list it has no columns, so every column access raises a key error;
  built from at least one point object it has the seven columns.
\<close>

type_synonym table = "point list"

definition column :: "table \<Rightarrow> string \<Rightarrow> (point \<Rightarrow> 'a) \<Rightarrow> error + 'a list" where
  "column df name field = (if df = [] then Inl (KeyError name) else Inr (map field df))"

text \<open>
  Modelled from the spec: \<^verbatim>\<open>Series.unique()\<close>, the distinct values of a column in
  first-seen order, not sorted. A value is appended the first time it is met.
\<close>

fun unique_loop :: "'a list \<Rightarrow> 'a list \<Rightarrow> 'a list" where
  "unique_loop seen [] = seen"
| "unique_loop seen (x # xs) = unique_loop (if x \<in> set seen then seen else seen @ [x]) xs"

definition unique :: "'a list \<Rightarrow> 'a list" where
  "unique xs = unique_loop [] xs"


text \<open>\<^verbatim>\<open>subset.iloc[0]\<close>: the first row of a table, an index error on an empty one.\<close>

definition iloc0 :: "table \<Rightarrow> error + point" where
  "iloc0 df = (case df of [] \<Rightarrow> Inl IndexError | row # _ \<Rightarrow> Inr row)"

section \<open>Aggregator\<close>

text \<open>
  Modelled from the spec: \<^verbatim>\<open>np.histogram2d(x, y, bins=N, range=[[0, 1], [0, 1]])\<close>, a
  function of the numerical library, whose code is not part of the repository. Each axis
  is cut into \<open>N\<close> equal-width bins by \<open>N + 1\<close> edges from 0 to 1. A sample gets, per axis,
  the number of edges that are not above it (NaN sorts after every edge); a sample equal to
  the last edge is moved into the last bin. Index 0 and index \<open>N + 1\<close> are the outliers
  below and above the range; the result is the count grid without the outlier rows and
  columns. The interior edges are kept exact here (the library rounds them to floats); the
  outer edges 0 and 1 are exact in both.
\<close>

definition linspace :: "rat \<Rightarrow> rat \<Rightarrow> nat \<Rightarrow> rat list" where
  "linspace start stop num =
     (if num = 0 then []
      else if num = 1 then [start]
      else map (\<lambda>i. start + of_nat i * ((stop - start) / of_nat (num - 1))) [0..<num - 1]
           @ [stop])"

fun edge_le :: "rat \<Rightarrow> float64 \<Rightarrow> bool" where
  "edge_le e (Fin q) = (e \<le> q)"
| "edge_le e PosInf = True"
| "edge_le e NegInf = False"
| "edge_le e NaN = True"

definition searchsorted_right :: "rat list \<Rightarrow> float64 \<Rightarrow> nat" where
  "searchsorted_right edges v = length (takeWhile (\<lambda>e. edge_le e v) edges)"

definition bin_index :: "rat list \<Rightarrow> float64 \<Rightarrow> nat" where
  "bin_index edges v =
     (let k = searchsorted_right edges v
      in if v = Fin (last edges) then k - 1 else k)"

text \<open>The slice \<^verbatim>\<open>hist[1:-1, 1:-1]\<close>.\<close>

definition core :: "'a list list \<Rightarrow> 'a list list" where
  "core hist = map (\<lambda>row. butlast (tl row)) (butlast (tl hist))"

definition hist_grid :: "float64 list \<Rightarrow> float64 list \<Rightarrow> nat \<Rightarrow> nat list list" where
  "hist_grid x y bins =
     (let edges = linspace 0 1 (bins + 1);
          nbin = bins + 2;
          xy = zip (map (bin_index edges) x) (map (bin_index edges) y);
          hist = map (\<lambda>i. map (\<lambda>j. count_list xy (i, j)) [0..<nbin]) [0..<nbin]
      in core hist)"

definition histogram2d :: "float64 list \<Rightarrow> float64 list \<Rightarrow> nat \<Rightarrow> error + nat list list" where
  "histogram2d x y bins =
     (if bins = 0 then Inl ValueError
      else if length x \<noteq> length y then Inl ValueError
      else Inr (hist_grid x y bins))"

text \<open>The Aggregator on a row subset: the histogram of its two coordinate columns.\<close>

definition aggregate :: "table \<Rightarrow> nat \<Rightarrow> error + nat list list" where
  "aggregate rows bins = histogram2d (map xNorm rows) (map yNorm rows) bins"

text \<open>A coordinate lies within \<open>[0, 1]\<close>.\<close>

fun in_unit :: "float64 \<Rightarrow> bool" where
  "in_unit (Fin q) = (0 \<le> q \<and> q \<le> 1)"
| "in_unit PosInf = False"
| "in_unit NegInf = False"
| "in_unit NaN = False"

definition grid_total :: "nat list list \<Rightarrow> nat" where
  "grid_total grid = sum_list (map sum_list grid)"

section \<open>Effects\<close>

text \<open>
  What a run does is recorded as a list of events, in order. Printed lines keep the
  structure of the formatted string instead of its rendering: literal text, an integer,
  a string passed through \<^verbatim>\<open>str.capitalize()\<close>, an array of column values.
\<close>

datatype part = Txt string | Num nat | Cap string | Arr "string list"

datatype colour = ByValue "float64 list" string | Fixed string

text \<open>The drawing calls made on one panel (\<^verbatim>\<open>axes[idx]\<close>), in call order.\<close>

datatype draw_op =
    ImShowImage string rat
  | SetFacecolor string
  | ImShowHeatmap "nat list list" string rat
  | Scatter "float64 list" "float64 list" colour
  | SetTitle "part list"
  | SetXLabel string
  | SetYLabel string
  | SetXLim
  | SetYLim
  | InvertYAxis
  | Colorbar string

type_synonym panel = "draw_op list"

type_synonym axes = "panel list"

text \<open>
  \<^verbatim>\<open>PrintValueCounts\<close> is \<^verbatim>\<open>print(df['contactType'].value_counts())\<close> and
  \<^verbatim>\<open>PrintGroupMeans\<close> is
  \<^verbatim>\<open>print(df.groupby('contactType')['confidence'].mean().round(2))\<close>: the events carry
  the columns the library call is applied to; the floating-point mean and its rounding
  are not evaluated.
\<close>

datatype event =
    Print "part list"
  | OpenRead string
  | PathExists string
  | ImageOpen string
  | SaveFig string axes
  | PrintValueCounts "string list"
  | PrintGroupMeans "string list" "float64 list"

text \<open>
  A computation returns the events it caused and either the exception that ended it or
  its value. Sequencing stops at the first exception and keeps the events so far.
\<close>

type_synonym 'a run = "event list \<times> (error + 'a)"

definition and_then :: "'a run \<Rightarrow> ('a \<Rightarrow> 'b run) \<Rightarrow> 'b run" where
  "and_then m f =
     (case m of
        (es, Inl e) \<Rightarrow> (es, Inl e)
      | (es, Inr a) \<Rightarrow> (case f a of (es', r) \<Rightarrow> (es @ es', r)))"

definition ret :: "'a \<Rightarrow> 'a run" where
  "ret a = ([], Inr a)"

definition emit :: "event \<Rightarrow> unit run" where
  "emit e = ([e], Inr ())"

definition lift :: "error + 'a \<Rightarrow> 'a run" where
  "lift r = ([], r)"

text \<open>
  The environment of a run: what opening and parsing a path as JSON gives, which paths
  exist, and what the plotting library does with a complete figure. A parsed document is
  represented by the value of its \<^verbatim>\<open>data\<close> key. Reading an image that exists is taken to
  succeed.

  \<^verbatim>\<open>plt.tight_layout()\<close> and \<^verbatim>\<open>plt.savefig(...)\<close> typeset the texts of the figure and
  can raise: a title holding an even number of dollar signs is read as mathematics, and a
  malformed formula is a \<^verbatim>\<open>ValueError\<close>; so is an image too large to rasterise. The
  library is not part of the repository, so the exception each call raises on a figure, if
  any, is a parameter of the environment.
\<close>

datatype file_state = Missing | Malformed | Document "point participant list"

record env =
  json_files :: "string \<Rightarrow> file_state"
  path_exists :: "string \<Rightarrow> bool"
  tight_layout_error :: "axes \<Rightarrow> error option"
  savefig_error :: "string \<Rightarrow> axes \<Rightarrow> error option"

text \<open>
  The UTF-8 bytes of the check mark and of the warning sign in the printed lines, the
  newline, and a file name between apostrophes.
\<close>

definition tick :: string where
  "tick = [CHR 0xE2, CHR 0x9C, CHR 0x93]"

definition warn :: string where
  "warn = [CHR 0xE2, CHR 0x9A, CHR 0xA0]"

definition nl :: string where
  "nl = [CHR 0x0A]"

definition quoted :: "string \<Rightarrow> string" where
  "quoted s = CHR 0x27 # s @ [CHR 0x27]"

section \<open>Renderer\<close>

text \<open>
  \<^verbatim>\<open>plt.subplots(1, ncols)\<close>: a row of \<open>ncols\<close> empty panels. For one column the library
  returns a single panel, which the script wraps into a list; for no column it raises.
\<close>

definition subplots :: "nat \<Rightarrow> error + axes" where
  "subplots ncols = (if ncols = 0 then Inl ValueError else Inr (replicate ncols []))"

text \<open>A drawing call on \<^verbatim>\<open>axes[idx]\<close>; an index past the last panel raises.\<close>

definition on_axes :: "axes \<Rightarrow> nat \<Rightarrow> draw_op \<Rightarrow> error + axes" where
  "on_axes axes idx op =
     (if idx < length axes then Inr (axes[idx := axes ! idx @ [op]]) else Inl IndexError)"

fun draw_all :: "axes \<Rightarrow> nat \<Rightarrow> draw_op list \<Rightarrow> error + axes" where
  "draw_all axes idx [] = Inr axes"
| "draw_all axes idx (op # ops) =
     (case on_axes axes idx op of
        Inl e \<Rightarrow> Inl e
      | Inr axes' \<Rightarrow> draw_all axes' idx ops)"

text \<open>
  \<^verbatim>\<open>plt.tight_layout()\<close> and \<^verbatim>\<open>plt.savefig(name, dpi=300, bbox_inches='tight')\<close> on the
  current figure: the exception of the library, or nothing and the written file.
\<close>

definition tight_layout :: "env \<Rightarrow> axes \<Rightarrow> unit run" where
  "tight_layout env axes =
     (case tight_layout_error env axes of
        Some e \<Rightarrow> lift (Inl e)
      | None \<Rightarrow> ret ())"

definition savefig :: "env \<Rightarrow> string \<Rightarrow> axes \<Rightarrow> unit run" where
  "savefig env name axes =
     (case savefig_error env name axes of
        Some e \<Rightarrow> lift (Inl e)
      | None \<Rightarrow> emit (SaveFig name axes))"

text \<open>\<^verbatim>\<open>for idx, value in enumerate(values): ...\<close> with the panels as the loop state.\<close>

fun panels_loop ::
  "(axes \<Rightarrow> nat \<Rightarrow> string \<Rightarrow> axes run) \<Rightarrow> nat \<Rightarrow> string list \<Rightarrow> axes \<Rightarrow> axes run" where
  "panels_loop body idx [] axes = ret axes"
| "panels_loop body idx (v # rest) axes =
     and_then (body axes idx v) (\<lambda>axes'. panels_loop body (Suc idx) rest axes')"

subsection \<open>Heatmaps by figure\<close>

text \<open>The calls of one panel after its background, lines 72 to 102.\<close>

definition figure_artists :: "string \<Rightarrow> table \<Rightarrow> nat list list \<Rightarrow> draw_op list" where
  "figure_artists fig figure_data heatmap =
     [ImShowHeatmap (transpose heatmap) ''hot'' (1 / 2),
      Scatter (map xNorm figure_data) (map yNorm figure_data)
        (ByValue (map confidence figure_data) ''viridis''),
      SetTitle [Cap fig, Txt '' - Contact Heatmap ('', Num (length figure_data),
        Txt '' points)''],
      SetXLabel ''X Position'',
      SetYLabel ''Y Position'',
      SetXLim,
      SetYLim,
      InvertYAxis,
      Colorbar ''Contact Intensity'']"

definition figure_panel :: "env \<Rightarrow> table \<Rightarrow> axes \<Rightarrow> nat \<Rightarrow> string \<Rightarrow> axes run" where
  "figure_panel env df axes idx fig =
     (let figure_data = filter (\<lambda>r. figure r = fig) df;
          image_path = fig @ ''.png''
      in and_then (emit (PathExists image_path)) (\<lambda>_.
         and_then
           (if path_exists env image_path
            then and_then (emit (ImageOpen image_path)) (\<lambda>_.
                 and_then (lift (on_axes axes idx (ImShowImage image_path (7 / 10)))) (\<lambda>axes1.
                 and_then (emit (Print [Txt tick, Txt '' Loaded '', Txt image_path])) (\<lambda>_.
                 ret axes1)))
            else and_then (emit (Print [Txt warn, Txt '' '', Txt image_path,
                     Txt '' not found - will show heatmap only''])) (\<lambda>_.
                 lift (on_axes axes idx (SetFacecolor ''lightgray''))))
           (\<lambda>axes1.
         and_then (lift (aggregate figure_data 15)) (\<lambda>heatmap.
         lift (draw_all axes1 idx (figure_artists fig figure_data heatmap))))))"

definition render_by_figure :: "env \<Rightarrow> table \<Rightarrow> axes run" where
  "render_by_figure env df =
     and_then (lift (column df ''figure'' figure)) (\<lambda>col.
     (let figures = unique col;
          num_figures = length figures
      in and_then (lift (subplots num_figures)) (\<lambda>axes.
         and_then (panels_loop (figure_panel env df) 0 figures axes) (\<lambda>axes'.
         and_then (tight_layout env axes') (\<lambda>_.
         and_then (savefig env ''heatmaps_on_figures.png'' axes') (\<lambda>_.
         and_then (emit (Print [Txt nl, Txt tick,
            Txt '' Heatmaps overlaid on figures saved as '',
            Txt (quoted ''heatmaps_on_figures.png'')])) (\<lambda>_.
         ret axes')))))))"

subsection \<open>Heatmaps by contact type\<close>

definition contact_artists :: "string \<Rightarrow> table \<Rightarrow> nat list list \<Rightarrow> draw_op list" where
  "contact_artists contact_type contact_data heatmap =
     [ImShowHeatmap (transpose heatmap) ''Reds'' (6 / 10),
      Scatter (map xNorm contact_data) (map yNorm contact_data) (Fixed ''blue''),
      SetTitle [Cap contact_type, Txt '' Contacts ('', Num (length contact_data),
        Txt '' points)''],
      SetXLim,
      SetYLim,
      InvertYAxis,
      Colorbar ''Count'']"

definition contact_panel :: "env \<Rightarrow> table \<Rightarrow> axes \<Rightarrow> nat \<Rightarrow> string \<Rightarrow> axes run" where
  "contact_panel env df axes idx contact_type =
     (let contact_data = filter (\<lambda>r. contactType r = contact_type) df
      in and_then (lift (iloc0 contact_data)) (\<lambda>row0.
         (let image_path = figure row0 @ ''.png''
          in and_then (emit (PathExists image_path)) (\<lambda>_.
             and_then
               (if path_exists env image_path
                then and_then (emit (ImageOpen image_path)) (\<lambda>_.
                     lift (on_axes axes idx (ImShowImage image_path (6 / 10))))
                else lift (on_axes axes idx (SetFacecolor ''lightgray'')))
               (\<lambda>axes1.
             and_then (lift (aggregate contact_data 12)) (\<lambda>heatmap.
             lift (draw_all axes1 idx (contact_artists contact_type contact_data heatmap))))))))"

definition render_by_contacttype :: "env \<Rightarrow> table \<Rightarrow> axes run" where
  "render_by_contacttype env df =
     and_then (lift (subplots 2)) (\<lambda>axes.
     and_then (lift (column df ''contactType'' contactType)) (\<lambda>col.
     (let contact_types = unique col
      in and_then (panels_loop (contact_panel env df) 0 contact_types axes) (\<lambda>axes'.
         and_then (tight_layout env axes') (\<lambda>_.
         and_then (savefig env ''heatmaps_by_contacttype.png'' axes') (\<lambda>_.
         and_then (emit (Print [Txt tick,
            Txt '' Heatmaps by contact type saved as '',
            Txt (quoted ''heatmaps_by_contacttype.png'')])) (\<lambda>_.
         ret axes')))))))"

subsection \<open>Heatmaps by direction\<close>

text \<open>The dictionary \<^verbatim>\<open>direction_labels\<close> and its subscript, a key error on a missing key.\<close>

definition direction_labels :: "string \<Rightarrow> string option" where
  "direction_labels =
     map_of [(''touched_by'', ''I was touched''), (''touched'', ''I touched'')]"

definition direction_label :: "string \<Rightarrow> error + string" where
  "direction_label d =
     (case direction_labels d of None \<Rightarrow> Inl (KeyError d) | Some label \<Rightarrow> Inr label)"

definition direction_artists :: "string \<Rightarrow> table \<Rightarrow> draw_op list" where
  "direction_artists label direction_data =
     [SetTitle [Txt label, Txt '' ('', Num (length direction_data), Txt '' points)''],
      SetXLim,
      SetYLim,
      InvertYAxis,
      Colorbar ''Count'']"

definition direction_panel :: "env \<Rightarrow> table \<Rightarrow> axes \<Rightarrow> nat \<Rightarrow> string \<Rightarrow> axes run" where
  "direction_panel env df axes idx d =
     (let direction_data = filter (\<lambda>r. direction r = d) df
      in and_then (lift (iloc0 direction_data)) (\<lambda>row0.
         (let image_path = figure row0 @ ''.png''
          in and_then (emit (PathExists image_path)) (\<lambda>_.
             and_then
               (if path_exists env image_path
                then and_then (emit (ImageOpen image_path)) (\<lambda>_.
                     lift (on_axes axes idx (ImShowImage image_path (6 / 10))))
                else lift (on_axes axes idx (SetFacecolor ''lightgray'')))
               (\<lambda>axes1.
             and_then (lift (aggregate direction_data 12)) (\<lambda>heatmap.
             and_then (lift (draw_all axes1 idx
               [ImShowHeatmap (transpose heatmap) ''Blues'' (6 / 10),
                Scatter (map xNorm direction_data) (map yNorm direction_data) (Fixed ''red'')]))
               (\<lambda>axes2.
             and_then (lift (direction_label d)) (\<lambda>label.
             lift (draw_all axes2 idx (direction_artists label direction_data))))))))))"

definition render_by_direction :: "env \<Rightarrow> table \<Rightarrow> axes run" where
  "render_by_direction env df =
     and_then (lift (subplots 2)) (\<lambda>axes.
     and_then (lift (column df ''direction'' direction)) (\<lambda>col.
     (let directions = unique col
      in and_then (panels_loop (direction_panel env df) 0 directions axes) (\<lambda>axes'.
         and_then (tight_layout env axes') (\<lambda>_.
         and_then (savefig env ''heatmaps_by_direction.png'' axes') (\<lambda>_.
         and_then (emit (Print [Txt tick,
            Txt '' Heatmaps by direction saved as '',
            Txt (quoted ''heatmaps_by_direction.png'')])) (\<lambda>_.
         ret axes')))))))"

section \<open>Reporter\<close>

text \<open>The data summary printed before the figures, lines 33 to 38.\<close>

definition summary :: "table \<Rightarrow> unit run" where
  "summary df =
     and_then (emit (Print [Txt ''=== Data Summary ==='']))  (\<lambda>_.
     and_then (emit (Print [Txt ''Total points recorded: '', Num (length df)])) (\<lambda>_.
     and_then (lift (column df ''participantId'' participantId)) (\<lambda>c1.
     and_then (emit (Print [Txt ''Participants: '', Arr (unique c1)])) (\<lambda>_.
     and_then (lift (column df ''figure'' figure)) (\<lambda>c2.
     and_then (emit (Print [Txt ''Figures: '', Arr (unique c2)])) (\<lambda>_.
     and_then (lift (column df ''contactType'' contactType)) (\<lambda>c3.
     and_then (emit (Print [Txt ''Contact types: '', Arr (unique c3)])) (\<lambda>_.
     and_then (lift (column df ''direction'' direction)) (\<lambda>c4.
     emit (Print [Txt ''Directions: '', Arr (unique c4)]))))))))))"

text \<open>
  \<^verbatim>\<open>for direction in df['direction'].unique():\<close> of the statistics, lines 224 to 227.
\<close>

fun report_directions :: "table \<Rightarrow> string list \<Rightarrow> unit run" where
  "report_directions df [] = ret ()"
| "report_directions df (d # rest) =
     and_then (lift (direction_label d)) (\<lambda>label.
     (let count = length (filter (\<lambda>r. direction r = d) df)
      in and_then (emit (Print [Txt ''  '', Txt label, Txt '': '', Num count])) (\<lambda>_.
         report_directions df rest)))"

definition statistics :: "table \<Rightarrow> unit run" where
  "statistics df =
     and_then (emit (Print [Txt nl, Txt ''=== Statistics ==='']))  (\<lambda>_.
     and_then (emit (Print [Txt nl, Txt ''Contact Types:''])) (\<lambda>_.
     and_then (lift (column df ''contactType'' contactType)) (\<lambda>c1.
     and_then (emit (PrintValueCounts c1)) (\<lambda>_.
     and_then (emit (Print [Txt nl, Txt ''Directions:''])) (\<lambda>_.
     and_then (lift (column df ''direction'' direction)) (\<lambda>c2.
     and_then (report_directions df (unique c2)) (\<lambda>_.
     and_then (emit (Print [Txt nl, Txt ''Average Confidence by Contact Type:''])) (\<lambda>_.
     and_then (lift (column df ''contactType'' contactType)) (\<lambda>c3.
     and_then (lift (column df ''confidence'' confidence)) (\<lambda>c4.
     and_then (emit (PrintGroupMeans c3 c4)) (\<lambda>_.
     emit (Print [Txt nl, Txt tick, Txt '' Analysis complete!'']))))))))))))"

section \<open>The script\<close>

datatype outcome = Exit nat | Uncaught error

text \<open>\<^verbatim>\<open>with open(json_file, 'r') as f: data = json.load(f)\<close> and \<^verbatim>\<open>data['data']\<close>.\<close>

definition load :: "env \<Rightarrow> string \<Rightarrow> point participant list run" where
  "load env json_file =
     and_then (emit (OpenRead json_file)) (\<lambda>_.
     (case json_files env json_file of
        Missing \<Rightarrow> lift (Inl (FileNotFoundError json_file))
      | Malformed \<Rightarrow> lift (Inl JSONDecodeError)
      | Document data \<Rightarrow> ret data))"

definition pipeline :: "env \<Rightarrow> string \<Rightarrow> unit run" where
  "pipeline env json_file =
     and_then (load env json_file) (\<lambda>data.
     (let points = flattener data;
          df = points
      in and_then (summary df) (\<lambda>_.
         and_then (render_by_figure env df) (\<lambda>_.
         and_then (render_by_contacttype env df) (\<lambda>_.
         and_then (render_by_direction env df) (\<lambda>_.
         statistics df))))))"

text \<open>
  The whole run on \<^verbatim>\<open>sys.argv\<close>. An uncaught exception ends the run; otherwise the
  script falls off its end and the exit code is 0.
\<close>

definition main :: "env \<Rightarrow> string list \<Rightarrow> event list \<times> outcome" where
  "main env argv =
     (if length argv < 2
      then (case argv of
              [] \<Rightarrow> ([], Uncaught IndexError)
            | prog # _ \<Rightarrow>
                ([Print [Txt ''Usage: python '', Txt prog, Txt '' <path_to_json_file>'']],
                 Exit 1))
      else (case pipeline env (argv ! 1) of
              (es, Inl e) \<Rightarrow> (es, Uncaught e)
            | (es, Inr _) \<Rightarrow> (es, Exit 0)))"

section \<open>What a panel shows\<close>

text \<open>
  The background call of a panel: the image when its file exists, the flat gray face
  colour otherwise.
\<close>

definition background_op :: "env \<Rightarrow> string \<Rightarrow> rat \<Rightarrow> draw_op" where
  "background_op env image_path alpha =
     (if path_exists env image_path then ImShowImage image_path alpha
      else SetFacecolor ''lightgray'')"


definition contact_ops :: "env \<Rightarrow> table \<Rightarrow> string \<Rightarrow> panel" where
  "contact_ops env df contact_type =
     (let contact_data = filter (\<lambda>r. contactType r = contact_type) df
      in case find (\<lambda>r. contactType r = contact_type) df of
           None \<Rightarrow> []
         | Some row0 \<Rightarrow>
             background_op env (figure row0 @ ''.png'') (6 / 10) #
             contact_artists contact_type contact_data
               (hist_grid (map xNorm contact_data) (map yNorm contact_data) 12))"

definition direction_ops :: "env \<Rightarrow> table \<Rightarrow> string \<Rightarrow> panel" where
  "direction_ops env df d =
     (let direction_data = filter (\<lambda>r. direction r = d) df
      in case (find (\<lambda>r. direction r = d) df, direction_labels d) of
           (Some row0, Some label) \<Rightarrow>
             background_op env (figure row0 @ ''.png'') (6 / 10) #
             ImShowHeatmap
               (transpose (hist_grid (map xNorm direction_data) (map yNorm direction_data) 12))
               ''Blues'' (6 / 10) #
             Scatter (map xNorm direction_data) (map yNorm direction_data) (Fixed ''red'') #
             direction_artists label direction_data
         | _ \<Rightarrow> [])"




text \<open>The paths a list of events probes or opens as an image, in order.\<close>

fun image_path_of :: "event \<Rightarrow> string list" where
  "image_path_of (PathExists p) = [p]"
| "image_path_of (ImageOpen p) = [p]"
| "image_path_of _ = []"

definition image_paths :: "event list \<Rightarrow> string list" where
  "image_paths es = concat (map image_path_of es)"

text \<open>The names of the figures a list of events writes, in order.\<close>

fun saved_name :: "event \<Rightarrow> string list" where
  "saved_name (SaveFig name _) = [name]"
| "saved_name _ = []"

definition saved_figures :: "event list \<Rightarrow> string list" where
  "saved_figures es = concat (map saved_name es)"



section \<open>Notions used in the statements about the Renderer\<close>




text \<open>The image, if any, a panel is drawn over.\<close>

fun shown_image :: "draw_op \<Rightarrow> string list" where
  "shown_image (ImShowImage p _) = [p]"
| "shown_image _ = []"

definition shown_images :: "panel \<Rightarrow> string list" where
  "shown_images ops = concat (map shown_image ops)"

section \<open>Example inputs\<close>

text \<open>A point object with the given figure, contact type, direction and coordinates.\<close>

definition pt :: "string \<Rightarrow> string \<Rightarrow> string \<Rightarrow> rat \<Rightarrow> rat \<Rightarrow> point" where
  "pt fig ct d x y =
     \<lparr>participantId = ''p1'', figure = fig, contactType = ct, direction = d,
      xNorm = Fin x, yNorm = Fin y, confidence = Fin (9 / 10)\<rparr>"

text \<open>
  The document \<^verbatim>\<open>{"data": [{"t0": {...}}, null]}\<close> of the end-to-end scenario, built as
  the JSON reader builds it: the key \<^verbatim>\<open>t0\<close> stored into an empty dictionary.
\<close>

definition scenario_point :: point where
  "scenario_point =
     \<lparr>participantId = ''p1'', figure = ''arm'', contactType = ''pat'',
      direction = ''touched'', xNorm = Fin (1 / 2), yNorm = Fin (1 / 2),
      confidence = Fin (9 / 10)\<rparr>"

definition scenario_data :: "point participant list" where
  "scenario_data = [Some (DAList.update ''t0'' scenario_point DAList.empty), None]"

text \<open>
  A working directory without any image, and one holding the two figure images; in both
  the plotting library lays out and saves every figure.
\<close>

definition no_images :: env where
  "no_images =
     \<lparr>json_files = (\<lambda>_. Missing), path_exists = (\<lambda>_. False),
      tight_layout_error = (\<lambda>_. None), savefig_error = (\<lambda>_ _. None)\<rparr>"

definition two_images :: env where
  "two_images =
     \<lparr>json_files = (\<lambda>_. Missing),
      path_exists = (\<lambda>p. p = ''arm.png'' \<or> p = ''leg.png''),
      tight_layout_error = (\<lambda>_. None), savefig_error = (\<lambda>_ _. None)\<rparr>"

text \<open>
  A directory where \<^verbatim>\<open>bad.json\<close> is not JSON and \<^verbatim>\<open>nulls.json\<close> is
  \<^verbatim>\<open>{"data": [null, null]}\<close>; no other path exists.
\<close>

definition some_files :: env where
  "some_files =
     \<lparr>json_files = (\<lambda>p. if p = ''bad.json'' then Malformed
                          else if p = ''nulls.json'' then Document [None, None]
                          else Missing),
      path_exists = (\<lambda>p. p = ''bad.json'' \<or> p = ''nulls.json''),
      tight_layout_error = (\<lambda>_. None), savefig_error = (\<lambda>_ _. None)\<rparr>"






definition two_figures :: table where
  "two_figures =
     [pt ''arm'' ''pat'' ''touched'' (1 / 2) (1 / 2),
      pt ''leg'' ''pat'' ''touched_by'' (1 / 4) (3 / 4),
      pt ''arm'' ''pat'' ''touched_by'' 1 0]"

definition three_directions :: table where
  "three_directions =
     [pt ''arm'' ''pat'' ''touched'' (1 / 2) (1 / 2),
      pt ''arm'' ''pat'' ''touched_by'' (1 / 4) (1 / 2),
      pt ''arm'' ''pat'' ''self'' (1 / 2) (1 / 2)]"

definition three_contacts :: table where
  "three_contacts =
     [pt ''arm'' ''pat'' ''touched'' (1 / 2) (1 / 2),
      pt ''arm'' ''stroke'' ''touched'' (1 / 4) (1 / 2),
      pt ''arm'' ''grab'' ''touched'' (1 / 2) (1 / 2)]"

text \<open>Rows inside, on the border of and outside the unit square.\<close>

definition mixed_rows :: table where
  "mixed_rows =
     [pt ''arm'' ''pat'' ''touched'' (1 / 2) (1 / 2),
      pt ''arm'' ''pat'' ''touched'' 1 0,
      pt ''arm'' ''pat'' ''touched'' (3 / 2) (1 / 2),
      (pt ''arm'' ''pat'' ''touched'' 0 0)\<lparr>yNorm := NaN\<rparr>]"

section \<open>Properties of the Flattener\<close>

lemma append_points_eq: "append_points kvs points = points @ map snd kvs"
  by (induction kvs points rule: append_points.induct) simp_all

lemma flatten_eq: "flatten data points = points @ concat (map entry_points data)"
  by (induction data points rule: flatten.induct)
     (simp_all add: entry_points_def append_points_eq)

lemma items_length: "length (items d) = card (dom (DAList.lookup d))"
proof -
  have "distinct (map fst (items d))" by (simp add: items_def)
  then have "card (set (map fst (items d))) = length (items d)"
    using distinct_card by fastforce
  moreover have "dom (DAList.lookup d) = set (map fst (items d))"
    by (simp add: items_def DAList.lookup.rep_eq dom_map_of_conv_image_fst)
  ultimately show ?thesis by simp
qed

lemma length_entry_points: "length (entry_points e) = timestamp_entries e"
  by (cases e) (simp_all add: entry_points_def timestamp_entries_def items_length)

text \<open>
  C1: the Flattener skips the \<^verbatim>\<open>None\<close> entries and emits the point objects of every other
  entry, one per (timestamp, point) pair, in order; the number of records is the sum over the
  entries of the number of timestamp keys, a \<^verbatim>\<open>None\<close> entry counting for none. The
  function is total: no input of this shape makes it raise.
\<close>

theorem flattener_count:
  "flattener data = concat (map entry_points data) \<and>
   length (flattener data) = sum_list (map timestamp_entries data)"
  by (simp add: flattener_def flatten_eq length_concat length_entry_points comp_def)

section \<open>Properties of the Tabulator\<close>

lemma unique_loop_set: "set (unique_loop seen xs) = set seen \<union> set xs"
  by (induction xs arbitrary: seen) auto







lemma unique_set: "set (unique xs) = set xs"
  by (simp add: unique_def unique_loop_set)


section \<open>Properties of the Aggregator\<close>

lemma tl_map_upt: "tl (map f [0..<Suc n]) = map f [1..<Suc n]"
  by (simp add: upt_conv_Cons del: upt_Suc)

lemma slice_inner: "butlast (tl (map g [0..<Suc (Suc n)])) = map g [1..<Suc n]"
proof -
  have "tl (map g [0..<Suc (Suc n)]) = map g [1..<Suc (Suc n)]"
    by (rule tl_map_upt)
  also have "\<dots> = map g [1..<Suc n] @ [g (Suc n)]"
    by (simp del: upt_Suc add: upt_Suc_append)
  finally show ?thesis by (simp del: upt_Suc)
qed

lemma core_grid:
  "core (map (\<lambda>i. map (f i) [0..<Suc (Suc n)]) [0..<Suc (Suc n)]) =
   map (\<lambda>i. map (f i) [1..<Suc n]) [1..<Suc n]"
  unfolding core_def by (simp only: slice_inner list.map_comp comp_def)

lemma box_count:
  "(\<Sum>i\<leftarrow>[1..<Suc n]. \<Sum>j\<leftarrow>[1..<Suc n]. count_list xy (i, j)) =
   length (filter (\<lambda>(i, j). 1 \<le> i \<and> i \<le> n \<and> 1 \<le> j \<and> j \<le> n) xy)"
proof -
  have "(\<Sum>i\<leftarrow>[1..<Suc n]. \<Sum>j\<leftarrow>[1..<Suc n]. count_list xy (i, j)) =
        (\<Sum>i\<in>{1..n}. \<Sum>j\<in>{1..n}. count_list xy (i, j))"
    by (simp only: sum_list_distinct_conv_sum_set distinct_upt set_upt
          atLeastLessThanSuc_atLeastAtMost)
  also have "\<dots> = length (filter (\<lambda>(i, j). 1 \<le> i \<and> i \<le> n \<and> 1 \<le> j \<and> j \<le> n) xy)"
  proof (induction xy)
    case Nil
    then show ?case by simp
  next
    case (Cons p xy)
    obtain a b where p: "p = (a, b)" by (cases p)
    have hit: "(\<Sum>i\<in>{1..n}. \<Sum>j\<in>{1..n}. (if a = i \<and> b = j then 1 else 0 :: nat)) =
          (if 1 \<le> a \<and> a \<le> n \<and> 1 \<le> b \<and> b \<le> n then 1 else 0)"
    proof -
      have "(\<Sum>j\<in>{1..n}. (if a = i \<and> b = j then 1 else 0 :: nat)) =
            (if a = i then (if b \<in> {1..n} then 1 else 0) else 0)" for i
        by (cases "a = i") simp_all
      then have "(\<Sum>i\<in>{1..n}. \<Sum>j\<in>{1..n}. (if a = i \<and> b = j then 1 else 0 :: nat)) =
            (\<Sum>i\<in>{1..n}. (if a = i then (if b \<in> {1..n} then 1 else 0) else 0))"
        by simp
      also have "\<dots> = (if a \<in> {1..n} then (if b \<in> {1..n} then 1 else 0) else 0)"
        by simp
      finally show ?thesis by simp
    qed
    have pt: "count_list (p # xy) (i, j) =
          (if a = i \<and> b = j then 1 else 0) + count_list xy (i, j)" for i j
      by (simp add: p)
    have "(\<Sum>i\<in>{1..n}. \<Sum>j\<in>{1..n}. count_list (p # xy) (i, j)) =
          (\<Sum>i\<in>{1..n}. \<Sum>j\<in>{1..n}. (if a = i \<and> b = j then 1 else 0 :: nat)) +
          (\<Sum>i\<in>{1..n}. \<Sum>j\<in>{1..n}. count_list xy (i, j))"
      by (simp only: pt sum.distrib)
    then show ?case using hit Cons.IH by (simp add: p)
  qed
  finally show ?thesis .
qed

lemma linspace_unit:
  assumes "0 < n"
  shows "linspace 0 1 (Suc n) = map (\<lambda>i. of_nat i / of_nat n) [0..<n] @ [1]"
  using assms by (simp add: linspace_def)

lemma takeWhile_hd_false: "xs \<noteq> [] \<Longrightarrow> \<not> P (hd xs) \<Longrightarrow> takeWhile P xs = []"
  by (cases xs) simp_all

lemma takeWhile_hd_true: "xs \<noteq> [] \<Longrightarrow> P (hd xs) \<Longrightarrow> 1 \<le> length (takeWhile P xs)"
  by (cases xs) simp_all

lemma takeWhile_all: "\<forall>x\<in>set xs. P x \<Longrightarrow> length (takeWhile P xs) = length xs"
  by (simp add: takeWhile_eq_all_conv[THEN iffD2])

lemma takeWhile_last_false:
  "xs \<noteq> [] \<Longrightarrow> \<not> P (last xs) \<Longrightarrow> length (takeWhile P xs) < length xs"
proof -
  assume a: "xs \<noteq> []" "\<not> P (last xs)"
  then have "takeWhile P xs \<noteq> xs" using last_in_set[OF a(1)] by (auto simp: takeWhile_eq_all_conv)
  moreover have "length (takeWhile P xs) \<le> length xs" by (rule length_takeWhile_le)
  ultimately show ?thesis
    by (metis le_neq_implies_less takeWhile_eq_take take_all order_refl)
qed

lemma frac_le_1: "i < n \<Longrightarrow> (of_nat i :: rat) / of_nat n \<le> 1"
  by (simp add: divide_le_eq_1)

lemma edges_length: "0 < n \<Longrightarrow> length (linspace 0 1 (Suc n)) = Suc n"
  by (simp add: linspace_unit)

lemma edges_hd: "0 < n \<Longrightarrow> hd (linspace 0 1 (Suc n)) = 0"
  by (simp add: linspace_unit hd_append hd_map hd_upt)

lemma edges_last: "0 < n \<Longrightarrow> last (linspace 0 1 (Suc n)) = 1"
  by (simp add: linspace_unit)

lemma edges_le_1: "0 < n \<Longrightarrow> e \<in> set (linspace 0 1 (Suc n)) \<Longrightarrow> e \<le> 1"
  using frac_le_1 by (auto simp add: linspace_unit)

lemma bin_index_low:
  assumes "0 < n" and "\<not> edge_le 0 v"
  shows "bin_index (linspace 0 1 (Suc n)) v = 0"
proof -
  have "linspace 0 1 (Suc n) \<noteq> []" using edges_length[OF assms(1)] by auto
  then have "takeWhile (\<lambda>e. edge_le e v) (linspace 0 1 (Suc n)) = []"
    using assms by (intro takeWhile_hd_false) (simp_all add: edges_hd)
  then show ?thesis by (simp add: bin_index_def searchsorted_right_def)
qed

lemma bin_index_high:
  assumes "0 < n" and "edge_le 1 v" and "v \<noteq> Fin 1"
    and mono: "\<And>e. e \<le> 1 \<Longrightarrow> edge_le e v"
  shows "bin_index (linspace 0 1 (Suc n)) v = Suc n"
proof -
  have "length (takeWhile (\<lambda>e. edge_le e v) (linspace 0 1 (Suc n))) = length (linspace 0 1 (Suc n))"
    using edges_le_1[OF assms(1)] mono by (intro takeWhile_all) blast
  then show ?thesis using assms(1,3)
    by (simp add: bin_index_def searchsorted_right_def edges_length edges_last)
qed

lemma bin_index_edge:
  assumes "0 < n"
  shows "bin_index (linspace 0 1 (Suc n)) (Fin 1) = n"
proof -
  have "length (takeWhile (\<lambda>e. edge_le e (Fin 1)) (linspace 0 1 (Suc n))) = length (linspace 0 1 (Suc n))"
    using edges_le_1[OF assms(1)] by (intro takeWhile_all) simp
  then show ?thesis using assms(1)
    by (simp add: bin_index_def searchsorted_right_def edges_length edges_last)
qed

lemma bin_index_inner:
  assumes "0 < n" and "0 \<le> q" and "q < 1"
  shows "1 \<le> bin_index (linspace 0 1 (Suc n)) (Fin q) \<and> bin_index (linspace 0 1 (Suc n)) (Fin q) \<le> n"
proof -
  let ?edges = "linspace 0 1 (Suc n)"
  have ne: "?edges \<noteq> []" using edges_length[OF assms(1)] by auto
  have a: "1 \<le> length (takeWhile (\<lambda>e. edge_le e (Fin q)) ?edges)"
    using ne assms by (intro takeWhile_hd_true) (simp_all add: edges_hd)
  have b: "length (takeWhile (\<lambda>e. edge_le e (Fin q)) ?edges) < length ?edges"
    using ne assms by (intro takeWhile_last_false) (simp_all add: edges_last)
  have "bin_index ?edges (Fin q) = length (takeWhile (\<lambda>e. edge_le e (Fin q)) ?edges)"
    using assms by (simp add: bin_index_def searchsorted_right_def edges_last)
  then show ?thesis using a b by (simp add: edges_length[OF assms(1)])
qed

lemma bin_index_in_range:
  assumes "0 < n"
  shows "(1 \<le> bin_index (linspace 0 1 (Suc n)) v \<and> bin_index (linspace 0 1 (Suc n)) v \<le> n)
         \<longleftrightarrow> in_unit v"
proof (cases v)
  case (Fin q)
  consider "q < 0" | "0 \<le> q" "q < 1" | "q = 1" | "1 < q" by linarith
  then show ?thesis
  proof cases
    case 1
    then show ?thesis using bin_index_low[OF assms, of v] by (simp add: Fin)
  next
    case 2
    then show ?thesis using bin_index_inner[OF assms, of q] by (simp add: Fin)
  next
    case 3
    then show ?thesis using bin_index_edge[OF assms] assms by (simp add: Fin)
  next
    case 4
    then show ?thesis using bin_index_high[OF assms, of v] by (simp add: Fin)
  qed
next
  case PosInf
  then show ?thesis using bin_index_high[OF assms, of v] by simp
next
  case NegInf
  then show ?thesis using bin_index_low[OF assms, of v] by simp
next
  case NaN
  then show ?thesis using bin_index_high[OF assms, of v] by simp
qed

lemma hist_grid_eq:
  "hist_grid x y n =
     map (\<lambda>i. map (\<lambda>j. count_list
        (zip (map (bin_index (linspace 0 1 (Suc n))) x) (map (bin_index (linspace 0 1 (Suc n))) y)) (i, j))
        [1..<Suc n]) [1..<Suc n]"
proof -
  have "n + 1 = Suc n" and "n + 2 = Suc (Suc n)" by simp_all
  then show ?thesis
    unfolding hist_grid_def Let_def by (simp only: core_grid)
qed

lemma hist_grid_total:
  assumes "0 < n"
  shows "grid_total (hist_grid x y n) =
         length (filter (\<lambda>(a, b). in_unit a \<and> in_unit b) (zip x y))"
proof -
  let ?f = "bin_index (linspace 0 1 (Suc n))"
  let ?xy = "zip (map ?f x) (map ?f y)"
  have z: "?xy = map (\<lambda>(a, b). (?f a, ?f b)) (zip x y)"
    by (simp add: zip_map_map)
  have "grid_total (hist_grid x y n) =
        (\<Sum>i\<leftarrow>[1..<Suc n]. \<Sum>j\<leftarrow>[1..<Suc n]. count_list ?xy (i, j))"
    unfolding grid_total_def hist_grid_eq by (simp only: list.map_comp comp_def)
  also have "\<dots> = length (filter (\<lambda>(i, j). 1 \<le> i \<and> i \<le> n \<and> 1 \<le> j \<and> j \<le> n) ?xy)"
    by (rule box_count)
  also have "\<dots> = length (filter (\<lambda>(a, b). in_unit a \<and> in_unit b) (zip x y))"
  proof -
    have "(\<lambda>p. case (case p of (a, b) \<Rightarrow> (?f a, ?f b)) of (i, j) \<Rightarrow> 1 \<le> i \<and> i \<le> n \<and> 1 \<le> j \<and> j \<le> n)
          = (\<lambda>(a, b). in_unit a \<and> in_unit b)"
      using bin_index_in_range[OF assms] by (auto simp: fun_eq_iff)
    then show ?thesis unfolding z by (simp only: filter_map length_map comp_def)
  qed
  finally show ?thesis .
qed

lemma hist_grid_shape:
  "length (hist_grid x y n) = n \<and> (\<forall>row\<in>set (hist_grid x y n). length row = n)"
  unfolding hist_grid_eq by (simp del: upt_Suc)

lemma filter_rows:
  "length (filter (\<lambda>(a, b). in_unit a \<and> in_unit b) (zip (map xNorm rows) (map yNorm rows))) =
   length (filter (\<lambda>r. in_unit (xNorm r) \<and> in_unit (yNorm r)) rows)"
  by (induction rows) simp_all

lemma aggregate_ok:
  "0 < bins \<Longrightarrow>
   aggregate rows bins = Inr (hist_grid (map xNorm rows) (map yNorm rows) bins)"
  by (simp add: aggregate_def histogram2d_def)

text \<open>
  C2: for a positive bin count \<open>N\<close> the Aggregator returns an \<open>N\<close> by \<open>N\<close> grid of counts,
  and the counts add up to the number of rows whose \<^verbatim>\<open>xNorm\<close> and \<^verbatim>\<open>yNorm\<close> both lie in
  \<open>[0, 1]\<close> (NaN and the infinities lie outside). The grid is a function of the rows and the
  bin count alone, so two runs on the same inputs give the same grid.
\<close>

theorem aggregator_bin_total:
  "0 < bins \<Longrightarrow>
   \<exists>grid. aggregate rows bins = Inr grid \<and>
     length grid = bins \<and> (\<forall>row\<in>set grid. length row = bins) \<and>
     grid_total grid = length (filter (\<lambda>r. in_unit (xNorm r) \<and> in_unit (yNorm r)) rows)"
  using hist_grid_shape[of "map xNorm rows" "map yNorm rows" bins]
  by (simp add: aggregate_ok hist_grid_total filter_rows)

text \<open>Four rows, two of them inside the unit square, in three bins per axis.\<close>

theorem aggregator_bin_total_witness:
  "(0::nat) < 3 \<and>
   (\<exists>grid. aggregate mixed_rows 3 = Inr grid \<and> length grid = 3 \<and> grid_total grid = 2)"
proof -
  have h: "(0::nat) < 3" by simp
  have n: "length (filter (\<lambda>r. in_unit (xNorm r) \<and> in_unit (yNorm r)) mixed_rows) = 2"
    by (simp add: mixed_rows_def pt_def)
  show ?thesis using h aggregator_bin_total[OF h, of mixed_rows] n by auto
qed

lemma items_single: "items (DAList.update k v DAList.empty) = [(k, v)]"
  by (simp add: items_def DAList.update.rep_eq DAList.empty.rep_eq)

text \<open>
  C5: on the document whose \<^verbatim>\<open>data\<close> is one participant with the single point \<^verbatim>\<open>t0\<close>,
  followed by \<^verbatim>\<open>null\<close>, the Flattener produces exactly that one record, the unique values
  of the \<^verbatim>\<open>figure\<close> column are \<^verbatim>\<open>["arm"]\<close>, and the Aggregator with one bin per axis gives
  the one by one grid holding 1.
\<close>

theorem end_to_end_scenario:
  "flattener scenario_data = [scenario_point] \<and>
   (\<exists>col. column (flattener scenario_data) ''figure'' figure = Inr col \<and>
      unique col = [''arm'']) \<and>
   aggregate (flattener scenario_data) 1 = Inr [[1]]"
proof -
  have f: "flattener scenario_data = [scenario_point]"
    by (simp add: flattener_def scenario_data_def items_single)
  have u: "unique [figure scenario_point] = [''arm'']"
    by (simp add: unique_def scenario_point_def)
  have a: "aggregate [scenario_point] 1 = Inr [[1]]"
    by code_simp
  show ?thesis using a by (simp add: f u column_def)
qed

section \<open>Properties of the run\<close>

lemma and_then_Inr [simp]: "and_then (es, Inr a) f = (es @ fst (f a), snd (f a))"
  by (cases "f a") (simp add: and_then_def)

lemma and_then_Inl [simp]: "and_then (es, Inl e) f = (es, Inl e)"
  by (simp add: and_then_def)

lemmas run_defs = lift_def ret_def emit_def

lemma snd_and_then:
  "snd (and_then m f) = (case snd m of Inl e \<Rightarrow> Inl e | Inr a \<Rightarrow> snd (f a))"
  by (cases m; cases "snd m") (auto simp: and_then_def split: prod.splits)

lemma fst_and_then:
  "fst (and_then m f) = (case snd m of Inl e \<Rightarrow> fst m | Inr a \<Rightarrow> fst m @ fst (f a))"
  by (cases m; cases "snd m") (auto simp: and_then_def split: prod.splits)

text \<open>
  C8: with no path argument the script prints the usage line and exits with code 1, and the
  run has no other event, so no file is touched. With a path argument whose file is missing,
  or whose content is not JSON, the run ends right after opening the path with the uncaught
  exception (file not found, JSON decode error).
\<close>

theorem usage_and_load_errors:
  "main env [prog] =
     ([Print [Txt ''Usage: python '', Txt prog, Txt '' <path_to_json_file>'']], Exit 1) \<and>
   (json_files env json_file = Missing \<longrightarrow>
      main env (prog # json_file # rest) =
        ([OpenRead json_file], Uncaught (FileNotFoundError json_file))) \<and>
   (json_files env json_file = Malformed \<longrightarrow>
      main env (prog # json_file # rest) = ([OpenRead json_file], Uncaught JSONDecodeError))"
  by (simp add: main_def pipeline_def load_def run_defs)

text \<open>A directory without \<^verbatim>\<open>gone.json\<close> and with a malformed \<^verbatim>\<open>bad.json\<close>.\<close>

theorem usage_and_load_errors_witness:
  "json_files some_files ''gone.json'' = Missing \<and>
   json_files some_files ''bad.json'' = Malformed \<and>
   main some_files [''parse_bodymap.py''] =
     ([Print [Txt ''Usage: python '', Txt ''parse_bodymap.py'', Txt '' <path_to_json_file>'']],
      Exit 1) \<and>
   main some_files [''parse_bodymap.py'', ''gone.json''] =
     ([OpenRead ''gone.json''], Uncaught (FileNotFoundError ''gone.json'')) \<and>
   main some_files [''parse_bodymap.py'', ''bad.json''] =
     ([OpenRead ''bad.json''], Uncaught JSONDecodeError)"
proof -
  have m: "json_files some_files ''gone.json'' = Missing"
    and b: "json_files some_files ''bad.json'' = Malformed"
    by (simp_all add: some_files_def)
  show ?thesis
    using m b
      usage_and_load_errors[of some_files "''parse_bodymap.py''" "''gone.json''" "[]"]
      usage_and_load_errors[of some_files "''parse_bodymap.py''" "''bad.json''" "[]"]
    by simp
qed

lemma flattener_all_null: "\<forall>e\<in>set data. e = None \<Longrightarrow> flattener data = []"
  by (induction data) (auto simp: flattener_def)

text \<open>
  C9: when every entry of \<^verbatim>\<open>data\<close> is \<^verbatim>\<open>null\<close> (or there is none), the table is empty
  and has no column: the run prints the summary header and the total of 0, then ends with
  the uncaught key error of the \<^verbatim>\<open>participantId\<close> column. None of the three figures is
  written.
\<close>

theorem empty_table_aborts:
  "json_files env json_file = Document data \<Longrightarrow> \<forall>e\<in>set data. e = None \<Longrightarrow>
   main env (prog # json_file # rest) =
     ([OpenRead json_file, Print [Txt ''=== Data Summary ===''],
       Print [Txt ''Total points recorded: '', Num 0]],
      Uncaught (KeyError ''participantId'')) \<and>
   saved_figures (fst (main env (prog # json_file # rest))) = []"
  by (simp add: main_def pipeline_def load_def run_defs flattener_all_null summary_def
      column_def saved_figures_def)

text \<open>The document \<^verbatim>\<open>{"data": [null, null]}\<close>.\<close>

theorem empty_table_aborts_witness:
  "json_files some_files ''nulls.json'' = Document [None, None] \<and>
   main some_files [''parse_bodymap.py'', ''nulls.json''] =
     ([OpenRead ''nulls.json'', Print [Txt ''=== Data Summary ===''],
       Print [Txt ''Total points recorded: '', Num 0]],
      Uncaught (KeyError ''participantId'')) \<and>
   saved_figures (fst (main some_files [''parse_bodymap.py'', ''nulls.json''])) = []"
proof -
  have d: "json_files some_files ''nulls.json'' = Document [None, None]"
    by (simp add: some_files_def)
  have n: "\<forall>e\<in>set [None, None :: point participant]. e = None" by simp
  show ?thesis
    using d empty_table_aborts[OF d n, of "''parse_bodymap.py''" "[]"]
    by (simp add: saved_figures_def)
qed

section \<open>Properties of the Reporter\<close>

lemma direction_labels_cases:
  "direction_labels d =
     (if d = ''touched_by'' then Some ''I was touched''
      else if d = ''touched'' then Some ''I touched'' else None)"
  by (simp add: direction_labels_def)

lemma report_directions_result:
  "snd (report_directions df ds) =
     (case find (\<lambda>d. direction_labels d = None) ds of
        None \<Rightarrow> Inr ()
      | Some d \<Rightarrow> Inl (KeyError d))"
  by (induction ds) (auto simp: run_defs direction_label_def split: option.splits)

lemma statistics_result:
  "df \<noteq> [] \<Longrightarrow>
   snd (statistics df) =
     (case find (\<lambda>d. direction_labels d = None) (unique (map direction df)) of
        None \<Rightarrow> Inr ()
      | Some d \<Rightarrow> Inl (KeyError d))"
  by (simp add: statistics_def column_def run_defs snd_and_then report_directions_result
      split: option.splits sum.splits)

text \<open>
  C4: the label lookup succeeds for exactly the two directions \<^verbatim>\<open>touched\<close> (label
  \<^verbatim>\<open>I touched\<close>) and \<^verbatim>\<open>touched_by\<close> (label \<^verbatim>\<open>I was touched\<close>) and raises a key error for
  every other value; the statistics of the Reporter, run on a table with such a value, end
  with the key error of a direction outside the two.
\<close>

theorem direction_label_lookup:
  "(direction_label d = Inr label \<longleftrightarrow>
      d = ''touched'' \<and> label = ''I touched'' \<or>
      d = ''touched_by'' \<and> label = ''I was touched'') \<and>
   (d \<noteq> ''touched'' \<and> d \<noteq> ''touched_by'' \<longrightarrow> direction_label d = Inl (KeyError d)) \<and>
   (d \<in> set (map direction df) \<and> d \<noteq> ''touched'' \<and> d \<noteq> ''touched_by'' \<longrightarrow>
      (\<exists>d'. d' \<in> set (map direction df) \<and> d' \<noteq> ''touched'' \<and> d' \<noteq> ''touched_by'' \<and>
         snd (statistics df) = Inl (KeyError d')))"
proof (intro conjI impI)
  show "direction_label d = Inr label \<longleftrightarrow>
      d = ''touched'' \<and> label = ''I touched'' \<or>
      d = ''touched_by'' \<and> label = ''I was touched''"
    by (auto simp: direction_label_def direction_labels_cases)
next
  assume "d \<noteq> ''touched'' \<and> d \<noteq> ''touched_by''"
  then show "direction_label d = Inl (KeyError d)"
    by (simp add: direction_label_def direction_labels_cases)
next
  assume a: "d \<in> set (map direction df) \<and> d \<noteq> ''touched'' \<and> d \<noteq> ''touched_by''"
  then have ne: "df \<noteq> []" by auto
  from a have "d \<in> set (unique (map direction df))" and "direction_labels d = None"
    by (simp_all add: unique_set direction_labels_cases)
  then obtain d' where f: "find (\<lambda>d. direction_labels d = None) (unique (map direction df)) = Some d'"
    by (cases "find (\<lambda>d. direction_labels d = None) (unique (map direction df))")
       (auto simp: find_None_iff)
  then have "d' \<in> set (unique (map direction df))" and "direction_labels d' = None"
    by (auto simp: find_Some_iff)
  then have "d' \<in> set (map direction df) \<and> d' \<noteq> ''touched'' \<and> d' \<noteq> ''touched_by''"
    by (auto simp: unique_set direction_labels_cases split: if_splits)
  moreover have "snd (statistics df) = Inl (KeyError d')"
    by (simp add: statistics_result[OF ne] f)
  ultimately show "\<exists>d'. d' \<in> set (map direction df) \<and> d' \<noteq> ''touched'' \<and> d' \<noteq> ''touched_by'' \<and>
         snd (statistics df) = Inl (KeyError d')"
    by blast
qed

text \<open>The two labelled directions, and a table with the direction \<^verbatim>\<open>self\<close>.\<close>

theorem direction_label_lookup_witness:
  "''self'' \<in> set (map direction three_directions) \<and>
   direction_label ''touched'' = Inr ''I touched'' \<and>
   direction_label ''touched_by'' = Inr ''I was touched'' \<and>
   direction_label ''self'' = Inl (KeyError ''self'') \<and>
   snd (statistics three_directions) = Inl (KeyError ''self'')"
proof -
  have m: "''self'' \<in> set (map direction three_directions)"
    by (simp add: three_directions_def pt_def)
  have o: "d' = ''self''"
    if "d' \<in> set (map direction three_directions) \<and> d' \<noteq> ''touched'' \<and> d' \<noteq> ''touched_by''"
    for d'
    using that by (auto simp: three_directions_def pt_def)
  show ?thesis
    using m o
      direction_label_lookup[of "''touched''" "''I touched''" three_directions]
      direction_label_lookup[of "''touched_by''" "''I was touched''" three_directions]
      direction_label_lookup[of "''self''" "''x''" three_directions]
    by auto
qed

section \<open>Properties of the Renderer\<close>

text \<open>A panel that exists takes every drawing call; the calls of one panel of each breakdown.\<close>

lemma draw_all_ok:
  "idx < length axes \<Longrightarrow> draw_all axes idx ops = Inr (axes[idx := axes ! idx @ ops])"
  by (induction ops arbitrary: axes) (simp_all add: on_axes_def)


lemma iloc0_filter:
  "iloc0 (filter P df) = (case find P df of None \<Rightarrow> Inl IndexError | Some r \<Rightarrow> Inr r)"
  by (induction df) (simp_all add: iloc0_def)

lemma contact_panel_ok:
  assumes "idx < length axes" and "c \<in> set (map contactType df)"
  shows "snd (contact_panel env df axes idx c) = Inr (axes[idx := axes ! idx @ contact_ops env df c])"
proof -
  obtain r0 where f: "find (\<lambda>r. contactType r = c) df = Some r0"
    using assms(2) by (cases "find (\<lambda>r. contactType r = c) df") (auto simp: find_None_iff)
  show ?thesis using assms(1)
    by (simp add: contact_panel_def contact_ops_def background_op_def Let_def on_axes_def
      aggregate_ok draw_all_ok run_defs iloc0_filter f)
qed

lemma direction_panel_ok:
  assumes "idx < length axes" and "d \<in> set (map direction df)" and "direction_labels d = Some label"
  shows "snd (direction_panel env df axes idx d) = Inr (axes[idx := axes ! idx @ direction_ops env df d])"
proof -
  obtain r0 where f: "find (\<lambda>r. direction r = d) df = Some r0"
    using assms(2) by (cases "find (\<lambda>r. direction r = d) df") (auto simp: find_None_iff)
  show ?thesis using assms(1,3)
    by (simp add: direction_panel_def direction_ops_def background_op_def Let_def on_axes_def
      aggregate_ok draw_all_ok run_defs iloc0_filter f direction_label_def)
qed







lemma contact_panel_events:
  assumes "find (\<lambda>r. contactType r = c) df = Some row0"
  shows "fst (contact_panel env df axes idx c) =
         PathExists (figure row0 @ ''.png'') #
         (if path_exists env (figure row0 @ ''.png'') then [ImageOpen (figure row0 @ ''.png'')]
          else [])"
  by (simp add: contact_panel_def Let_def run_defs on_axes_def aggregate_ok iloc0_filter assms)

lemma direction_panel_events:
  assumes "find (\<lambda>r. direction r = d) df = Some row0"
  shows "fst (direction_panel env df axes idx d) =
         PathExists (figure row0 @ ''.png'') #
         (if path_exists env (figure row0 @ ''.png'') then [ImageOpen (figure row0 @ ''.png'')]
          else [])"
  by (simp add: direction_panel_def Let_def run_defs on_axes_def aggregate_ok iloc0_filter assms
      fst_and_then split: sum.splits)

lemma find_in_column: "find (\<lambda>r. f r = v) df = Some row0 \<Longrightarrow> v \<in> set (map f df)"
  by (auto simp: find_Some_iff)


lemma saved_figures_append [simp]:
  "saved_figures (es @ es') = saved_figures es @ saved_figures es'"
  by (simp add: saved_figures_def)














text \<open>
  The rendering by contact type on three distinct contact types: line 109 asks for two
  panels where line 44 counts the distinct values, and the third contact type indexes past
  them.
\<close>

lemma contact_types_third_value:
  "snd (render_by_contacttype no_images three_contacts) = Inl IndexError \<and>
   saved_figures (fst (render_by_contacttype no_images three_contacts)) = []"
  by code_simp



text \<open>
  C10: in the breakdowns by contact type and by direction, the only path a panel probes,
  opens and shows is the one named after the \<^verbatim>\<open>figure\<close> field of the first row of the
  panel's row subset, which is the first row of the table with the panel's category value;
  the category value itself and the figures of the later rows play no part.
\<close>

theorem first_row_background:
  "(iloc0 (filter (\<lambda>r. contactType r = c) df) = Inr row0 \<longrightarrow>
      find (\<lambda>r. contactType r = c) df = Some row0 \<and>
      fst (contact_panel env df axes idx c) =
        PathExists (figure row0 @ ''.png'') #
        (if path_exists env (figure row0 @ ''.png'') then [ImageOpen (figure row0 @ ''.png'')]
         else []) \<and>
      (idx < length axes \<longrightarrow>
         snd (contact_panel env df axes idx c) =
           Inr (axes[idx := axes ! idx @ contact_ops env df c]) \<and>
         shown_images (contact_ops env df c) =
           (if path_exists env (figure row0 @ ''.png'') then [figure row0 @ ''.png''] else []))) \<and>
   (iloc0 (filter (\<lambda>r. direction r = d) df) = Inr row1 \<longrightarrow>
      find (\<lambda>r. direction r = d) df = Some row1 \<and>
      fst (direction_panel env df axes idx d) =
        PathExists (figure row1 @ ''.png'') #
        (if path_exists env (figure row1 @ ''.png'') then [ImageOpen (figure row1 @ ''.png'')]
         else []) \<and>
      (idx < length axes \<and> direction_labels d = Some label \<longrightarrow>
         snd (direction_panel env df axes idx d) =
           Inr (axes[idx := axes ! idx @ direction_ops env df d]) \<and>
         shown_images (direction_ops env df d) =
           (if path_exists env (figure row1 @ ''.png'') then [figure row1 @ ''.png''] else [])))"
proof (intro conjI impI)
  {
    assume "iloc0 (filter (\<lambda>r. contactType r = c) df) = Inr row0"
    then show f: "find (\<lambda>r. contactType r = c) df = Some row0"
      by (simp add: iloc0_filter split: option.splits)
    then show "fst (contact_panel env df axes idx c) =
        PathExists (figure row0 @ ''.png'') #
        (if path_exists env (figure row0 @ ''.png'') then [ImageOpen (figure row0 @ ''.png'')]
         else [])"
      by (rule contact_panel_events)
    {
      assume "idx < length axes"
      then show "snd (contact_panel env df axes idx c) =
           Inr (axes[idx := axes ! idx @ contact_ops env df c])"
        by (rule contact_panel_ok) (rule find_in_column[OF f])
      show "shown_images (contact_ops env df c) =
           (if path_exists env (figure row0 @ ''.png'') then [figure row0 @ ''.png''] else [])"
        by (simp add: contact_ops_def f background_op_def Let_def shown_images_def
            contact_artists_def)
    }
  }
  {
    assume "iloc0 (filter (\<lambda>r. direction r = d) df) = Inr row1"
    then show f: "find (\<lambda>r. direction r = d) df = Some row1"
      by (simp add: iloc0_filter split: option.splits)
    then show "fst (direction_panel env df axes idx d) =
        PathExists (figure row1 @ ''.png'') #
        (if path_exists env (figure row1 @ ''.png'') then [ImageOpen (figure row1 @ ''.png'')]
         else [])"
      by (rule direction_panel_events)
    {
      assume a: "idx < length axes \<and> direction_labels d = Some label"
      then show "snd (direction_panel env df axes idx d) =
           Inr (axes[idx := axes ! idx @ direction_ops env df d])"
        by (intro direction_panel_ok[OF _ find_in_column[OF f]]) blast+
      show "shown_images (direction_ops env df d) =
           (if path_exists env (figure row1 @ ''.png'') then [figure row1 @ ''.png''] else [])"
        using a by (simp add: direction_ops_def f background_op_def Let_def shown_images_def
            direction_artists_def)
    }
  }
qed

text \<open>
  Rows of one contact type over the figures arm, leg, arm: the panel is drawn over
  \<^verbatim>\<open>arm.png\<close> alone, although \<^verbatim>\<open>leg.png\<close> exists too.
\<close>

theorem first_row_background_witness:
  "map figure (filter (\<lambda>r. contactType r = ''pat'') two_figures) = [''arm'', ''leg'', ''arm''] \<and>
   map figure (filter (\<lambda>r. direction r = ''touched_by'') two_figures) = [''leg'', ''arm''] \<and>
   fst (contact_panel two_images two_figures [[], []] 0 ''pat'') =
     [PathExists ''arm.png'', ImageOpen ''arm.png''] \<and>
   shown_images (contact_ops two_images two_figures ''pat'') = [''arm.png''] \<and>
   fst (direction_panel two_images two_figures [[], []] 1 ''touched_by'') =
     [PathExists ''leg.png'', ImageOpen ''leg.png''] \<and>
   shown_images (direction_ops two_images two_figures ''touched_by'') = [''leg.png'']"
proof -
  have s1: "map figure (filter (\<lambda>r. contactType r = ''pat'') two_figures) =
            [''arm'', ''leg'', ''arm'']"
    and s2: "map figure (filter (\<lambda>r. direction r = ''touched_by'') two_figures) =
            [''leg'', ''arm'']"
    by (simp_all add: two_figures_def pt_def)
  have r0: "iloc0 (filter (\<lambda>r. contactType r = ''pat'') two_figures) = Inr (two_figures ! 0)"
    and r1: "iloc0 (filter (\<lambda>r. direction r = ''touched_by'') two_figures) =
             Inr (two_figures ! 1)"
    by (simp_all add: two_figures_def pt_def iloc0_def)
  have g: "figure (two_figures ! 0) = ''arm''" "figure (two_figures ! 1) = ''leg''"
    "path_exists two_images ''arm.png''" "path_exists two_images ''leg.png''"
    "direction_labels ''touched_by'' = Some ''I was touched''"
    by (simp_all add: two_figures_def pt_def two_images_def direction_labels_def)
  show ?thesis
    using s1 s2 r0 r1 g
      first_row_background[of "''pat''" two_figures "two_figures ! 0" two_images "[[], []]" 0
        "''touched_by''" "two_figures ! 1" "''I was touched''"]
      first_row_background[of "''pat''" two_figures "two_figures ! 0" two_images "[[], []]" 1
        "''touched_by''" "two_figures ! 1" "''I was touched''"]
    by simp
qed

end
